theory Spec2Isabelle
  imports Main
begin

section \<open>Python values the module relies on\<close>

text \<open>
  The module \<^verbatim>\<open>panelsplit/panelsplit.py\<close> is embedded function by function.
  An exception is a value of \<open>error\<close>; a function that can raise returns
  \<open>error + 'a\<close> with \<open>Inl\<close> for the exception. The string of \<open>NameError\<close> and of
  \<open>AttributeError\<close> is the name that could not be resolved, the string of the others
  is the message, shortened.
\<close>

datatype error =
    ValueError string
  | NameError string
  | AttributeError string
  | IndexError string
  | KeyError string
  | TypeError string

text \<open>
  Lines 1 to 6 are the only imports of the module and line 8 its only top-level
  statement. A global name that is none of these (and no builtin) raises
  \<^verbatim>\<open>NameError\<close> when the statement using it runs.
\<close>

definition module_globals :: "string list" where
  "module_globals =
     [''TimeSeriesSplit'', ''tqdm'', ''pd'', ''plt'', ''Parallel'', ''delayed'', ''np'',
      ''PanelSplit'']"

definition global_name :: "string \<Rightarrow> error + unit" where
  "global_name n = (if n \<in> set module_globals then Inr () else Inl (NameError n))"

subsection \<open>pandas operations used by the module\<close>

text \<open>
  A Series is the list of its values in row order; rows are identified by position.
  A missing label (NaN) is \<open>None\<close>.
\<close>

text \<open>\<^verbatim>\<open>Series.unique()\<close>: the distinct values in order of first appearance.\<close>

fun unique_acc :: "'a list \<Rightarrow> 'a list \<Rightarrow> 'a list" where
  "unique_acc seen [] = seen"
| "unique_acc seen (x # xs) =
     (if x \<in> set seen then unique_acc seen xs else unique_acc (seen @ [x]) xs)"

definition pd_unique :: "'a list \<Rightarrow> 'a list" where
  "pd_unique xs = unique_acc [] xs"

text \<open>\<^verbatim>\<open>Series.sort_values()\<close>: ascending order.\<close>

definition sort_values :: "'a::linorder list \<Rightarrow> 'a list" where
  "sort_values xs = sort xs"

text \<open>\<^verbatim>\<open>Series.isin(values).values\<close>: the boolean mask of membership, one entry per row.\<close>

definition isin :: "'a list \<Rightarrow> 'a list \<Rightarrow> bool list" where
  "isin col vals = map (\<lambda>p. p \<in> set vals) col"

text \<open>
  \<^verbatim>\<open>s.loc[mask]\<close> with a boolean array: the rows whose mask entry is true; a mask of
  another length than the Series raises \<^verbatim>\<open>IndexError\<close>.
\<close>

definition loc_mask :: "'a list \<Rightarrow> bool list \<Rightarrow> error + 'a list" where
  "loc_mask s m =
     (if length m = length s then Inr (map fst (filter snd (zip s m)))
      else Inl (IndexError ''Boolean index has wrong length''))"

text \<open>\<^verbatim>\<open>Series.nunique()\<close>: the number of distinct values that are not missing.\<close>

definition nunique :: "'l option list \<Rightarrow> nat" where
  "nunique s = length (remdups (filter (\<lambda>v. v \<noteq> None) s))"

text \<open>
  \<^verbatim>\<open>s.iloc[positions]\<close> with an array of positions: the values at these positions, in
  the order given; a position past the end raises \<^verbatim>\<open>IndexError\<close>.
\<close>

definition iloc :: "'a list \<Rightarrow> nat list \<Rightarrow> error + 'a list" where
  "iloc s pos =
     (if list_all (\<lambda>i. i < length s) pos then Inr (map (\<lambda>i. s ! i) pos)
      else Inl (IndexError ''positional indexers are out-of-bounds''))"

text \<open>
  Line 23 compares the argument with \<^verbatim>\<open>==\<close>. For \<^verbatim>\<open>None\<close> the comparison is the
  boolean \<^verbatim>\<open>True\<close>; for a Series it is the Series of the element-wise comparisons,
  and the truth value of a Series, which \<^verbatim>\<open>if\<close> asks for, raises \<^verbatim>\<open>ValueError\<close>.
\<close>

datatype comparison = PyBool bool | BoolSeries "bool list"

definition eq_None :: "'a list option \<Rightarrow> comparison" where
  "eq_None v = (case v of None \<Rightarrow> PyBool True | Some s \<Rightarrow> BoolSeries (map (\<lambda>_. False) s))"

definition truth :: "comparison \<Rightarrow> error + bool" where
  "truth c =
     (case c of
        PyBool b \<Rightarrow> Inr b
      | BoolSeries _ \<Rightarrow> Inl (ValueError ''The truth value of a Series is ambiguous.''))"

text \<open>A method of a Series called on the argument: \<^verbatim>\<open>None\<close> has no such attribute.\<close>

definition as_series :: "string \<Rightarrow> 'a list option \<Rightarrow> error + 'a list" where
  "as_series attr v = (case v of None \<Rightarrow> Inl (AttributeError attr) | Some s \<Rightarrow> Inr s)"

section \<open>The interval selector\<close>

text \<open>
  \<^verbatim>\<open>sklearn.model_selection.TimeSeriesSplit\<close> is not part of the repository. Its
  \<^verbatim>\<open>split\<close> is a parameter \<open>tss_split\<close> of the constructor below: for a
  configuration and a number of items it raises or yields pairs of train and test
  positions.
\<close>

record tss_config =
  cfg_n_splits :: int
  cfg_gap :: "int option"
  cfg_test_size :: "int option"
  cfg_max_train_size :: "int option"

type_synonym selector = "tss_config \<Rightarrow> nat \<Rightarrow> error + (nat list \<times> nat list) list"

text \<open>
  The selector of scikit-learn itself, for the calls of lines 25 and 26:
  \<^verbatim>\<open>TimeSeriesSplit(n_splits, gap, test_size, max_train_size).split(X)\<close> on \<open>n_samples\<close>
  items. The constructor refuses \<^verbatim>\<open>n_splits\<close> below 2. \<^verbatim>\<open>split\<close> takes
  \<^verbatim>\<open>n_samples // (n_splits + 1)\<close> as the test size when none is given, refuses more
  folds than items, subtracts the gap (which must be a number), refuses a
  configuration that leaves no item to train on, and yields one fold for each
  \<^verbatim>\<open>test_start\<close> in \<^verbatim>\<open>range(n_samples - n_splits * test_size, n_samples, test_size)\<close>:
  the train positions \<^verbatim>\<open>indices[:train_end]\<close>, or
  \<^verbatim>\<open>indices[train_end - max_train_size : train_end]\<close> when
  \<^verbatim>\<open>max_train_size and max_train_size < train_end\<close>, and the test positions
  \<^verbatim>\<open>indices[test_start : test_start + test_size]\<close>. \<open>py_slice\<close> is the slice
  \<^verbatim>\<open>indices[start:stop]\<close> of the positions \<open>0, ..., n - 1\<close>, \<open>py_range\<close> is
  \<^verbatim>\<open>range(start, stop, step)\<close>.
\<close>

definition py_slice :: "nat \<Rightarrow> int \<Rightarrow> int \<Rightarrow> nat list" where
  "py_slice n start stop =
     (let bound = (\<lambda>i. if i < 0 then max 0 (int n + i) else min (int n) i)
      in [nat (bound start) ..< nat (bound stop)])"

definition py_range :: "int \<Rightarrow> int \<Rightarrow> int \<Rightarrow> int list" where
  "py_range start stop step =
     (if 0 < step
      then map (\<lambda>k. start + int k * step) [0 ..< nat ((stop - start + step - 1) div step)]
      else if step < 0
      then map (\<lambda>k. start + int k * step) [0 ..< nat ((start - stop - step - 1) div (- step))]
      else [])"

definition TimeSeriesSplit_split :: selector where
  "TimeSeriesSplit_split cfg n_samples =
     (let k = cfg_n_splits cfg;
          n_folds = k + 1;
          test_size = (case cfg_test_size cfg of
                         Some t \<Rightarrow> t
                       | None \<Rightarrow> int n_samples div n_folds)
      in if k \<le> 1
         then Inl (ValueError ''k-fold cross-validation requires n_splits=2 or more'')
         else if int n_samples < n_folds
         then Inl (ValueError ''Cannot have number of folds greater than the number of samples'')
         else
           (case cfg_gap cfg of
              None \<Rightarrow> Inl (TypeError ''unsupported operand type(s) for -: int and NoneType'')
            | Some gap \<Rightarrow>
                if int n_samples - gap - test_size * k \<le> 0
                then Inl (ValueError ''Too many splits for number of samples'')
                else if test_size = 0
                then Inl (ValueError ''range() arg 3 must not be zero'')
                else
                  Inr (map (\<lambda>test_start.
                              let train_end = test_start - gap
                              in (case cfg_max_train_size cfg of
                                    None \<Rightarrow> py_slice n_samples 0 train_end
                                  | Some m \<Rightarrow>
                                      if m \<noteq> 0 \<and> m < train_end
                                      then py_slice n_samples (train_end - m) train_end
                                      else py_slice n_samples 0 train_end,
                                  py_slice n_samples test_start (test_start + test_size)))
                         (py_range (int n_samples - k * test_size) (int n_samples)
                            test_size))))"

section \<open>The class PanelSplit\<close>

text \<open>
  The attributes of an instance. \<open>stdout\<close> is the output printed on behalf of the
  instance, as the fold numbers \<open>i\<close> of the messages
  \<^verbatim>\<open>Dropping fold {i} as either the test or train set is either empty ...\<close>.
\<close>

record 'p PanelSplit =
  u_periods_cv :: "('p list \<times> 'p list) list"
  all_periods :: "'p list"
  drop_folds :: bool
  n_splits :: int
  all_indices :: "(bool list \<times> bool list) list"
  stdout :: "nat list"

subsection \<open>\<^verbatim>\<open>split_unique_periods\<close> (lines 44 to 59)\<close>

text \<open>The list the loop appends to, the local \<^verbatim>\<open>u_periods_cv\<close>, is \<open>folds\<close> here.\<close>

fun split_unique_periods_loop ::
  "'p list \<Rightarrow> (nat list \<times> nat list) list \<Rightarrow> ('p list \<times> 'p list) list \<Rightarrow>
   error + ('p list \<times> 'p list) list" where
  "split_unique_periods_loop unique_periods [] folds = Inr folds"
| "split_unique_periods_loop unique_periods ((train_index, test_index) # indices) folds =
     (case iloc unique_periods train_index of
        Inl e \<Rightarrow> Inl e
      | Inr unique_train_periods \<Rightarrow>
          (case iloc unique_periods test_index of
             Inl e \<Rightarrow> Inl e
           | Inr unique_test_periods \<Rightarrow>
               split_unique_periods_loop unique_periods indices
                 (folds @ [(unique_train_periods, unique_test_periods)])))"

definition split_unique_periods ::
  "(nat list \<times> nat list) list \<Rightarrow> 'p list \<Rightarrow> error + ('p list \<times> 'p list) list" where
  "split_unique_periods indices unique_periods =
     split_unique_periods_loop unique_periods indices []"

subsection \<open>\<^verbatim>\<open>split\<close> (lines 61 to 80)\<close>

text \<open>
  The condition of line 71, with Python's evaluation order: \<^verbatim>\<open>and\<close> and \<^verbatim>\<open>or\<close>
  stop at the first operand that decides them, so \<^verbatim>\<open>y\<close> is only touched when
  \<^verbatim>\<open>drop_folds\<close> is set and both masks have a non-zero length. \<^verbatim>\<open>len\<close> of a mask
  is its number of entries.
\<close>

definition drop_condition ::
  "bool \<Rightarrow> 'l option list option \<Rightarrow> bool list \<Rightarrow> bool list \<Rightarrow> error + bool" where
  "drop_condition dropping y train_indices test_indices =
     (if \<not> dropping then Inr False
      else if length train_indices = 0 \<or> length test_indices = 0 then Inr True
      else
        (case as_series ''loc'' y of
           Inl e \<Rightarrow> Inl e
         | Inr ys \<Rightarrow>
             (case loc_mask ys train_indices of
                Inl e \<Rightarrow> Inl e
              | Inr y_train \<Rightarrow>
                  if nunique y_train = 1 then Inr True
                  else
                    (case as_series ''loc'' y of
                       Inl e \<Rightarrow> Inl e
                     | Inr ys' \<Rightarrow>
                         (case loc_mask ys' test_indices of
                            Inl e \<Rightarrow> Inl e
                          | Inr y_test \<Rightarrow> Inr (nunique y_test = 1))))))"

text \<open>
  The loop of lines 67 to 78 over \<^verbatim>\<open>enumerate(self.u_periods_cv)\<close>. An exception
  leaves the instance as the loop had changed it so far.
\<close>

fun split_loop ::
  "'l option list option \<Rightarrow> bool \<Rightarrow> nat \<Rightarrow> ('p list \<times> 'p list) list \<Rightarrow> 'p PanelSplit \<Rightarrow>
   error option \<times> 'p PanelSplit" where
  "split_loop y init i [] self = (None, self)"
| "split_loop y init i ((train_periods, test_periods) # rest) self =
     (let train_indices = isin (all_periods self) train_periods;
          test_indices = isin (all_periods self) test_periods
      in case drop_condition (drop_folds self) y train_indices test_indices of
           Inl e \<Rightarrow> (Some e, self)
         | Inr c \<Rightarrow>
             if c then
               (if init then
                  split_loop y init (Suc i) rest
                    (self\<lparr>n_splits := n_splits self - 1, stdout := stdout self @ [i]\<rparr>)
                else split_loop y init (Suc i) rest self)
             else
               split_loop y init (Suc i) rest
                 (self\<lparr>all_indices := all_indices self @ [(train_indices, test_indices)]\<rparr>))"

definition split ::
  "'p PanelSplit \<Rightarrow> 'x \<Rightarrow> 'l option list option \<Rightarrow> 'g \<Rightarrow> bool \<Rightarrow>
   (error + (bool list \<times> bool list) list) \<times> 'p PanelSplit" where
  "split self X y groups init =
     (case split_loop y init 0 (u_periods_cv self) (self\<lparr>all_indices := []\<rparr>) of
        (None, self') \<Rightarrow> (Inr (all_indices self'), self')
      | (Some e, self') \<Rightarrow> (Inl e, self'))"

subsection \<open>\<^verbatim>\<open>get_n_splits\<close> (lines 82 to 86)\<close>

definition get_n_splits :: "'p PanelSplit \<Rightarrow> 'x \<Rightarrow> 'y \<Rightarrow> 'g \<Rightarrow> int" where
  "get_n_splits self X y groups = n_splits self"

subsection \<open>\<^verbatim>\<open>__init__\<close> (lines 9 to 42)\<close>

text \<open>Lines 23 and 24: the period sequence handed to the interval selector.\<close>

definition resolve_unique_periods :: "'p::linorder list \<Rightarrow> 'p list option \<Rightarrow> error + 'p list" where
  "resolve_unique_periods train_periods unique_periods =
     (case truth (eq_None unique_periods) of
        Inl e \<Rightarrow> Inl e
      | Inr b \<Rightarrow>
          if b then Inr (sort_values (pd_unique train_periods))
          else as_series ''reset_index'' unique_periods)"

text \<open>Lines 23 to 27: the period-level folds.\<close>

definition period_folds ::
  "selector \<Rightarrow> 'p::linorder list \<Rightarrow> 'p list option \<Rightarrow> tss_config \<Rightarrow>
   error + ('p list \<times> 'p list) list" where
  "period_folds tss_split train_periods unique_periods cfg =
     (case resolve_unique_periods train_periods unique_periods of
        Inl e \<Rightarrow> Inl e
      | Inr up \<Rightarrow>
          (case tss_split cfg (length up) of
             Inl e \<Rightarrow> Inl e
           | Inr indices \<Rightarrow> split_unique_periods indices up))"

text \<open>Line 31: \<^verbatim>\<open>warnings.warn(...)\<close> looks the global \<^verbatim>\<open>warnings\<close> up first.\<close>

definition warnings_warn :: "string \<Rightarrow> error + unit" where
  "warnings_warn msg = global_name ''warnings''"

text \<open>
  The constructor returns the instance, or the exception that left it. Drawing the
  folds (lines 41 and 42) changes no attribute.
\<close>

definition PanelSplit_init ::
  "selector \<Rightarrow> 'p::linorder list \<Rightarrow> 'p list option \<Rightarrow> int \<Rightarrow> int option \<Rightarrow> int option \<Rightarrow>
   int option \<Rightarrow> bool \<Rightarrow> bool \<Rightarrow> 'l option list option \<Rightarrow> error + 'p PanelSplit" where
  "PanelSplit_init tss_split train_periods unique_periods n gap test_size max_train_size
     plot dropping y =
     (case period_folds tss_split train_periods unique_periods
             \<lparr>cfg_n_splits = n, cfg_gap = gap, cfg_test_size = test_size,
              cfg_max_train_size = max_train_size\<rparr> of
        Inl e \<Rightarrow> Inl e
      | Inr u \<Rightarrow>
          (case (if y \<noteq> None \<and> \<not> dropping
                 then warnings_warn ''Ignoring y values because drop_folds is False.''
                 else Inr ()) of
             Inl e \<Rightarrow> Inl e
           | Inr _ \<Rightarrow>
               if y = None \<and> dropping
               then Inl (ValueError ''Cannot drop folds without specifying y values.'')
               else
                 (case split \<lparr>u_periods_cv = u, all_periods = train_periods,
                               drop_folds = dropping, n_splits = n, all_indices = [],
                               stdout = []\<rparr> () y () True of
                    (Inl e, self) \<Rightarrow> Inl e
                  | (Inr folds, self) \<Rightarrow> Inr self)))"

section \<open>Cross-validated prediction\<close>

subsection \<open>Estimator objects\<close>

text \<open>
  An estimator is a Python object: an address, with the state of every object held
  by a heap. The estimator's class is not part of the repository; its methods are
  the fields of \<open>estimator_class\<close>. \<^verbatim>\<open>fit\<close> is called on an object with the training
  rows, the training labels and the sample weights; it may change the heap and
  returns an object. The prediction methods read the state of the object they are
  called on.
\<close>

type_synonym addr = nat

type_synonym 'st heap = "addr \<Rightarrow> 'st"

record ('st, 'x, 'l, 'w, 'o) estimator_class =
  fit :: "addr \<Rightarrow> 'x list \<Rightarrow> 'l list \<Rightarrow> 'w list option \<Rightarrow> 'st heap \<Rightarrow> addr \<times> 'st heap"
  predict :: "'st \<Rightarrow> 'x list \<Rightarrow> 'o list"
  predict_proba :: "'st \<Rightarrow> 'x list \<Rightarrow> 'o list list"
  predict_log_proba :: "'st \<Rightarrow> 'x list \<Rightarrow> 'o list list"

text \<open>\<^verbatim>\<open>table[:, 1]\<close>: the second entry of every row.\<close>

definition column_1 :: "'o list list \<Rightarrow> error + 'o list" where
  "column_1 table =
     (if list_all (\<lambda>r. 1 < length r) table then Inr (map (\<lambda>r. r ! 1) table)
      else Inl (IndexError ''index 1 is out of bounds for axis 1''))"

subsection \<open>\<^verbatim>\<open>_predict_fold\<close> (lines 88 to 126)\<close>

definition predict_fold ::
  "('st, 'x, 'l, 'w, 'o) estimator_class \<Rightarrow> addr \<Rightarrow> 'x list \<Rightarrow> 'l list \<Rightarrow> 'x list \<Rightarrow> string \<Rightarrow>
   'w list option \<Rightarrow> 'st heap \<Rightarrow> (error + 'o list \<times> addr) \<times> 'st heap" where
  "predict_fold cls estimator X_train y_train X_test prediction_method sample_weight h =
     (case fit cls estimator X_train y_train sample_weight h of
        (model, h') \<Rightarrow>
          if prediction_method = ''predict''
          then (Inr (predict cls (h' model) X_test, model), h')
          else if prediction_method = ''predict_proba''
          then
            (case column_1 (predict_proba cls (h' model) X_test) of
               Inl e \<Rightarrow> (Inl e, h')
             | Inr values \<Rightarrow> (Inr (values, model), h'))
          else if prediction_method = ''predict_log_proba''
          then
            (case column_1 (predict_log_proba cls (h' model) X_test) of
               Inl e \<Rightarrow> (Inl e, h')
             | Inr values \<Rightarrow> (Inr (values, model), h'))
          else (Inl (ValueError ''Invalid prediction_method.''), h'))"

subsection \<open>\<^verbatim>\<open>cross_val_predict\<close> (lines 128 to 198)\<close>

text \<open>
  The tables \<^verbatim>\<open>X\<close>, \<^verbatim>\<open>y\<close>, \<^verbatim>\<open>indices\<close> and \<^verbatim>\<open>sample_weight\<close> are lists of rows; the
  index label of a row is its position. \<open>with_index\<close> pairs each value with its label,
  \<^verbatim>\<open>dropna\<close> removes the rows whose value is missing, \<open>loc_labels\<close> is \<^verbatim>\<open>s.loc[labels]\<close>
  with a list of labels.
\<close>

definition with_index :: "'a list \<Rightarrow> (nat \<times> 'a) list" where
  "with_index s = zip [0..<length s] s"

definition dropna :: "(nat \<times> 'l option) list \<Rightarrow> (nat \<times> 'l) list" where
  "dropna s = List.map_filter (\<lambda>(i, v). map_option (\<lambda>l. (i, l)) v) s"

definition loc_labels :: "'a list \<Rightarrow> nat list \<Rightarrow> error + 'a list" where
  "loc_labels s labels =
     (if list_all (\<lambda>i. i < length s) labels then Inr (map (\<lambda>i. s ! i) labels)
      else Inl (KeyError ''not in index''))"

text \<open>Lines 178 to 182 and the slice of the sample weights of line 185.\<close>

definition fold_slices ::
  "'x list \<Rightarrow> 'l option list \<Rightarrow> 'i list \<Rightarrow> 'w list option \<Rightarrow> bool list \<Rightarrow> bool list \<Rightarrow>
   error + ('l list \<times> 'x list \<times> 'x list \<times> 'i list \<times> 'w list option)" where
  "fold_slices X y indices sample_weight train_indices test_indices =
     (case loc_mask (with_index y) train_indices of
        Inl e \<Rightarrow> Inl e
      | Inr y_selected \<Rightarrow>
          (let y_train = dropna y_selected in
           case loc_labels X (map fst y_train) of
             Inl e \<Rightarrow> Inl e
           | Inr X_train \<Rightarrow>
               (case loc_mask X test_indices of
                  Inl e \<Rightarrow> Inl e
                | Inr X_test \<Rightarrow>
                    (case loc_mask y test_indices of
                       Inl e \<Rightarrow> Inl e
                     | Inr _ \<Rightarrow>
                         (case loc_mask indices test_indices of
                            Inl e \<Rightarrow> Inl e
                          | Inr pred \<Rightarrow>
                              (case sample_weight of
                                 None \<Rightarrow> Inr (map snd y_train, X_train, X_test, pred, None)
                               | Some w \<Rightarrow>
                                   (case loc_labels w (map fst y_train) of
                                      Inl e \<Rightarrow> Inl e
                                    | Inr ws \<Rightarrow>
                                        Inr (map snd y_train, X_train, X_test, pred,
                                             Some ws))))))))"

text \<open>\<^verbatim>\<open>pred[y_pred_col] = values\<close>: one value per row of \<^verbatim>\<open>pred\<close>.\<close>

definition assign_column :: "'i list \<Rightarrow> 'o list \<Rightarrow> error + ('i \<times> 'o) list" where
  "assign_column pred values =
     (if length values = length pred then Inr (zip pred values)
      else Inl (ValueError ''Length of values does not match length of index''))"

text \<open>\<^verbatim>\<open>pd.concat(predictions, axis=0)\<close>.\<close>

definition pd_concat :: "'a list list \<Rightarrow> error + 'a list" where
  "pd_concat frames =
     (if frames = [] then Inl (ValueError ''No objects to concatenate'')
      else Inr (concat frames))"

text \<open>The loop of lines 176 to 191 over the folds \<^verbatim>\<open>self.split()\<close> returned.\<close>

fun cross_val_predict_loop ::
  "('st, 'x, 'l, 'w, 'o) estimator_class \<Rightarrow> addr \<Rightarrow> 'x list \<Rightarrow> 'l option list \<Rightarrow> 'i list \<Rightarrow>
   string \<Rightarrow> 'w list option \<Rightarrow> (bool list \<times> bool list) list \<Rightarrow> ('i \<times> 'o) list list \<Rightarrow>
   addr list \<Rightarrow> 'st heap \<Rightarrow> (error + ('i \<times> 'o) list list \<times> addr list) \<times> 'st heap" where
  "cross_val_predict_loop cls estimator X y indices prediction_method sample_weight []
     predictions fitted_models h = (Inr (predictions, fitted_models), h)"
| "cross_val_predict_loop cls estimator X y indices prediction_method sample_weight
     ((train_indices, test_indices) # rest) predictions fitted_models h =
     (case fold_slices X y indices sample_weight train_indices test_indices of
        Inl e \<Rightarrow> (Inl e, h)
      | Inr (y_train, X_train, X_test, pred, weights) \<Rightarrow>
          (case predict_fold cls estimator X_train y_train X_test prediction_method weights h of
             (Inl e, h') \<Rightarrow> (Inl e, h')
           | (Inr (values, model), h') \<Rightarrow>
               (case assign_column pred values of
                  Inl e \<Rightarrow> (Inl e, h')
                | Inr frame \<Rightarrow>
                    cross_val_predict_loop cls estimator X y indices prediction_method
                      sample_weight rest (predictions @ [frame]) (fitted_models @ [model]) h')))"

text \<open>
  \<open>y_name\<close> is \<^verbatim>\<open>str(y.name)\<close> when \<^verbatim>\<open>y\<close> has the attribute. The result is the
  column name with the rows of the concatenated table, and the list of fitted models
  when \<^verbatim>\<open>return_fitted_models\<close> is set; with it come the instance and the heap as the
  call left them.
\<close>

definition cross_val_predict ::
  "('st, 'x, 'l, 'w, 'o) estimator_class \<Rightarrow> 'p PanelSplit \<Rightarrow> addr \<Rightarrow> 'x list \<Rightarrow> 'l option list \<Rightarrow>
   string option \<Rightarrow> 'i list \<Rightarrow> string \<Rightarrow> string option \<Rightarrow> bool \<Rightarrow> 'w list option \<Rightarrow> 'st heap \<Rightarrow>
   (error + (string \<times> ('i \<times> 'o) list) \<times> addr list option) \<times> 'p PanelSplit \<times> 'st heap" where
  "cross_val_predict cls self estimator X y y_name indices prediction_method y_pred_col
     return_fitted_models sample_weight h =
     (let col = (case y_pred_col of
                   Some c \<Rightarrow> c
                 | None \<Rightarrow> (case y_name of Some nm \<Rightarrow> nm @ ''_pred'' | None \<Rightarrow> ''y_pred''))
      in case split self () (None :: 'l option list option) () False of
           (Inl e, self') \<Rightarrow> (Inl e, self', h)
         | (Inr folds, self') \<Rightarrow>
             (case cross_val_predict_loop cls estimator X y indices prediction_method
                     sample_weight folds [] [] h of
                (Inl e, h') \<Rightarrow> (Inl e, self', h')
              | (Inr (predictions, fitted_models), h') \<Rightarrow>
                  (case pd_concat predictions of
                     Inl e \<Rightarrow> (Inl e, self', h')
                   | Inr result_df \<Rightarrow>
                       (Inr ((col, result_df),
                             if return_fitted_models then Some fitted_models else None),
                        self', h'))))"

section \<open>Cross-validated imputation\<close>

text \<open>
  The imputer's class is not part of the repository; \<^verbatim>\<open>fit\<close> and \<^verbatim>\<open>transform\<close> are
  the fields of \<open>imputer_class\<close>, on the state of the imputer.
\<close>

record ('st, 'x) imputer_class =
  imputer_fit :: "'st \<Rightarrow> 'x list \<Rightarrow> 'st"
  transform :: "'st \<Rightarrow> 'x list \<Rightarrow> 'x list"

text \<open>
  Line 249 calls the global \<^verbatim>\<open>clone\<close>. Were the name bound, the call would give a
  new object in the state of its argument.
\<close>

definition clone :: "'st \<Rightarrow> error + 'st" where
  "clone obj = (case global_name ''clone'' of Inl e \<Rightarrow> Inl e | Inr _ \<Rightarrow> Inr obj)"

text \<open>\<^verbatim>\<open>table.loc[mask] = rows\<close>: the rows the mask selects are replaced in order.\<close>

fun set_rows :: "'x list \<Rightarrow> bool list \<Rightarrow> 'x list \<Rightarrow> 'x list" where
  "set_rows (x # xs) (m # ms) (v # vs) =
     (if m then v # set_rows xs ms vs else x # set_rows xs ms (v # vs))"
| "set_rows xs ms vs = xs"

definition set_mask :: "'x list \<Rightarrow> bool list \<Rightarrow> 'x list \<Rightarrow> error + 'x list" where
  "set_mask table m rows =
     (if length m \<noteq> length table then Inl (IndexError ''Boolean index has wrong length'')
      else if length rows \<noteq> length (filter (\<lambda>b. b) m)
      then Inl (ValueError ''shape mismatch'')
      else Inr (set_rows table m rows))"

text \<open>The loop of lines 244 to 253; \<open>X_copy\<close> is the local \<^verbatim>\<open>_X\<close>.\<close>

fun cross_val_impute_loop ::
  "('st, 'x) imputer_class \<Rightarrow> 'st \<Rightarrow> (bool list \<times> bool list) list \<Rightarrow> 'x list \<Rightarrow> 'st list \<Rightarrow>
   error + 'x list \<times> 'st list" where
  "cross_val_impute_loop cls imputer [] X_copy imputers = Inr (X_copy, imputers)"
| "cross_val_impute_loop cls imputer ((train_indices, test_indices) # rest) X_copy imputers =
     (case loc_mask X_copy train_indices of
        Inl e \<Rightarrow> Inl e
      | Inr X_train \<Rightarrow>
          (case loc_mask X_copy test_indices of
             Inl e \<Rightarrow> Inl e
           | Inr X_test \<Rightarrow>
               (case clone imputer of
                  Inl e \<Rightarrow> Inl e
                | Inr imputer_new \<Rightarrow>
                    (let imputer_train = imputer_fit cls imputer_new X_train in
                     case set_mask X_copy test_indices (transform cls imputer_train X_test) of
                       Inl e \<Rightarrow> Inl e
                     | Inr X_next \<Rightarrow>
                         cross_val_impute_loop cls imputer rest X_next
                           (imputers @ [imputer_train])))))"

text \<open>\<^verbatim>\<open>cross_val_impute\<close> (lines 221 to 258); \<^verbatim>\<open>self.split()\<close> is called twice.\<close>

definition cross_val_impute ::
  "('st, 'x) imputer_class \<Rightarrow> 'p PanelSplit \<Rightarrow> 'st \<Rightarrow> 'x list \<Rightarrow> bool \<Rightarrow>
   (error + 'x list \<times> 'st list option) \<times> 'p PanelSplit" where
  "cross_val_impute cls self imputer X return_fitted_imputers =
     (case split self () (None :: unit option list option) () False of
        (Inl e, self') \<Rightarrow> (Inl e, self')
      | (Inr splits, self') \<Rightarrow>
          (case split self' () (None :: unit option list option) () False of
             (Inl e, self'') \<Rightarrow> (Inl e, self'')
           | (Inr folds, self'') \<Rightarrow>
               (case cross_val_impute_loop cls imputer folds X [] of
                  Inl e \<Rightarrow> (Inl e, self'')
                | Inr (X_copy, imputers) \<Rightarrow>
                    (Inr (X_copy, if return_fitted_imputers then Some imputers else None),
                     self''))))"

section \<open>Notions the properties are stated with\<close>

text \<open>
  The period-level folds for which the condition of line 71 holds with the labels
  \<open>y\<close>: the folds a construction with these labels drops.
\<close>

definition dropped_at_construction ::
  "'p PanelSplit \<Rightarrow> 'l option list option \<Rightarrow> ('p list \<times> 'p list) list" where
  "dropped_at_construction self y =
     filter (\<lambda>(train_periods, test_periods).
               drop_condition (drop_folds self) y (isin (all_periods self) train_periods)
                 (isin (all_periods self) test_periods) = Inr True)
       (u_periods_cv self)"

definition dropped_of ::
  "bool \<Rightarrow> 'l option list option \<Rightarrow> 'p list \<Rightarrow> ('p list \<times> 'p list) list \<Rightarrow>
   ('p list \<times> 'p list) list" where
  "dropped_of dropping y periods folds =
     filter (\<lambda>(train_periods, test_periods).
               drop_condition dropping y (isin periods train_periods)
                 (isin periods test_periods) = Inr True) folds"

text \<open>
  A sequence of later calls \<^verbatim>\<open>split(X, y, groups, init)\<close> on an instance, each with
  its own arguments; a call that raises leaves the instance as it was when it raised.
  \<open>default_init\<close> holds of a call that leaves \<^verbatim>\<open>init\<close> at its default \<^verbatim>\<open>False\<close>.
\<close>

fun split_calls ::
  "'p PanelSplit \<Rightarrow> ('x \<times> 'l option list option \<times> 'g \<times> bool) list \<Rightarrow> 'p PanelSplit" where
  "split_calls self [] = self"
| "split_calls self ((X, y, groups, init) # calls) =
     split_calls (snd (split self X y groups init)) calls"

definition default_init :: "'x \<times> 'l option list option \<times> 'g \<times> bool \<Rightarrow> bool" where
  "default_init call = (\<not> snd (snd (snd call)))"

text \<open>The number of rows a mask selects.\<close>

definition selected :: "bool list \<Rightarrow> nat" where
  "selected m = length (filter (\<lambda>b. b) m)"

text \<open>
  The row masks of a period-level fold, the rows a mask selects, and the folds a call
  of \<^verbatim>\<open>split\<close> with labels \<open>ys\<close> keeps: those whose masks are not empty and whose
  train labels and test labels each have a number of distinct values other than one.
\<close>

definition row_masks :: "'p list \<Rightarrow> 'p list \<times> 'p list \<Rightarrow> bool list \<times> bool list" where
  "row_masks periods pf = (isin periods (fst pf), isin periods (snd pf))"

definition rows_of :: "'a list \<Rightarrow> bool list \<Rightarrow> 'a list" where
  "rows_of s m = map fst (filter snd (zip s m))"

definition degenerate :: "'l option list \<Rightarrow> bool list \<times> bool list \<Rightarrow> bool" where
  "degenerate ys masks =
     (length (fst masks) = 0 \<or> length (snd masks) = 0
      \<or> nunique (rows_of ys (fst masks)) = 1 \<or> nunique (rows_of ys (snd masks)) = 1)"

definition kept_folds ::
  "'l option list \<Rightarrow> 'p list \<Rightarrow> ('p list \<times> 'p list) list \<Rightarrow> (bool list \<times> bool list) list" where
  "kept_folds ys periods folds =
     filter (\<lambda>masks. \<not> degenerate ys masks) (map (row_masks periods) folds)"

section \<open>Example data\<close>

text \<open>
  Three unique periods and two expanding folds: train on the first period and test
  on the second, then train on the first two and test on the third.
\<close>

definition expanding_3 :: selector where
  "expanding_3 cfg k = Inr [([0], [1]), ([0, 1], [2])]"

definition six_rows :: "int list" where
  "six_rows = [1, 1, 2, 2, 3, 3]"

definition alternating_labels :: "nat option list" where
  "alternating_labels = [Some 0, Some 1, Some 0, Some 1, Some 0, Some 1]"

definition first_period_constant :: "nat option list" where
  "first_period_constant = [Some 0, Some 0, Some 0, Some 1, Some 0, Some 1]"

text \<open>
  An estimator in scikit-learn's convention: \<^verbatim>\<open>fit\<close> stores what it learnt in the
  object itself (here the training labels) and returns the object; \<^verbatim>\<open>predict\<close>
  answers every row with the number of labels the object was fitted on.
\<close>

definition remembering :: "(nat list, int, nat, unit, nat) estimator_class" where
  "remembering =
     \<lparr>fit = (\<lambda>obj X_train y_train sample_weight h. (obj, h(obj := y_train))),
      predict = (\<lambda>st X_test. map (\<lambda>_. length st) X_test),
      predict_proba = (\<lambda>st X_test. []),
      predict_log_proba = (\<lambda>st X_test. [])\<rparr>"

text \<open>An imputer that fills a missing entry with the sum of the entries it was fitted on.\<close>

definition sum_imputer :: "(int, int option) imputer_class" where
  "sum_imputer =
     \<lparr>imputer_fit = (\<lambda>st rows. sum_list (map (\<lambda>v. case v of None \<Rightarrow> 0 | Some k \<Rightarrow> k) rows)),
      transform = (\<lambda>st rows. map (\<lambda>v. case v of None \<Rightarrow> Some st | Some k \<Rightarrow> Some k) rows)\<rparr>"

text \<open>The instances the constructor builds from the example data.\<close>

definition plain_instance :: "int PanelSplit" where
  "plain_instance =
     \<lparr>u_periods_cv = [([1], [2]), ([1, 2], [3])], all_periods = [1, 1, 2, 2, 3, 3],
      drop_folds = False, n_splits = 2,
      all_indices =
        [([True, True, False, False, False, False], [False, False, True, True, False, False]),
         ([True, True, True, True, False, False], [False, False, False, False, True, True])],
      stdout = []\<rparr>"

definition dropping_instance :: "int PanelSplit" where
  "dropping_instance = plain_instance\<lparr>drop_folds := True\<rparr>"

definition pruned_instance :: "int PanelSplit" where
  "pruned_instance =
     \<lparr>u_periods_cv = [([1], [2]), ([1, 2], [3])], all_periods = [1, 1, 2, 2, 3, 3],
      drop_folds = True, n_splits = 1,
      all_indices =
        [([True, True, True, True, False, False], [False, False, False, False, True, True])],
      stdout = [0]\<rparr>"

text \<open>
  The instance built with \<^verbatim>\<open>max_train_size=-1\<close>: both folds have no train period.
\<close>

definition untrained_instance :: "int PanelSplit" where
  "untrained_instance =
     \<lparr>u_periods_cv = [([], [2]), ([], [3])], all_periods = [1, 1, 2, 2, 3, 3],
      drop_folds = True, n_splits = 2,
      all_indices =
        [([False, False, False, False, False, False], [False, False, True, True, False, False]),
         ([False, False, False, False, False, False], [False, False, False, False, True, True])],
      stdout = []\<rparr>"

section \<open>The period sequence\<close>

lemma set_unique_acc: "set (unique_acc seen xs) = set seen \<union> set xs"
  by (induction xs arbitrary: seen) auto

lemma distinct_unique_acc: "distinct seen \<Longrightarrow> distinct (unique_acc seen xs)"
  by (induction xs arbitrary: seen) auto

lemma set_pd_unique: "set (pd_unique xs) = set xs"
  by (simp add: pd_unique_def set_unique_acc)

lemma distinct_pd_unique: "distinct (pd_unique xs)"
  by (simp add: pd_unique_def distinct_unique_acc)

lemma sort_values_pd_unique: "sort_values (pd_unique xs) = sorted_list_of_set (set xs)"
proof (rule sorted_distinct_set_unique)
  show "sorted (sort_values (pd_unique xs))"
    by (simp add: sort_values_def)
  show "distinct (sort_values (pd_unique xs))"
    by (simp add: sort_values_def distinct_pd_unique)
  show "set (sort_values (pd_unique xs)) = set (sorted_list_of_set (set xs))"
    by (simp add: sort_values_def set_pd_unique)
qed simp_all

text \<open>
  C4. With no \<^verbatim>\<open>unique_periods\<close> argument, the period sequence the constructor
  computes from any period column is strictly ascending, has no duplicates, and is
  the sorted list of the distinct values of the column.
\<close>

theorem default_unique_periods_sorted_distinct:
  "resolve_unique_periods train_periods None = Inr (sort_values (pd_unique train_periods))
   \<and> sorted_wrt (<) (sort_values (pd_unique train_periods))
   \<and> distinct (sort_values (pd_unique train_periods))
   \<and> sort_values (pd_unique train_periods) = sorted_list_of_set (set train_periods)"
proof -
  have "resolve_unique_periods train_periods None = Inr (sort_values (pd_unique train_periods))"
    by (simp add: resolve_unique_periods_def eq_None_def truth_def)
  moreover have "sorted_wrt (<) (sort_values (pd_unique train_periods))"
    by (simp add: strict_sorted_iff sort_values_def distinct_pd_unique)
  moreover have "distinct (sort_values (pd_unique train_periods))"
    by (simp add: sort_values_def distinct_pd_unique)
  ultimately show ?thesis
    using sort_values_pd_unique by blast
qed

section \<open>Invariants of the fold loop\<close>

lemma split_loop_frame:
  "split_loop y init i fs s = (r, s') \<Longrightarrow>
     u_periods_cv s' = u_periods_cv s \<and> all_periods s' = all_periods s
     \<and> drop_folds s' = drop_folds s"
proof (induction fs arbitrary: i s)
  case Nil
  then show ?case by simp
next
  case (Cons f fs)
  obtain trp tep where f: "f = (trp, tep)" by (cases f)
  show ?case
  proof (cases "drop_condition (drop_folds s) y (isin (all_periods s) trp)
                  (isin (all_periods s) tep)")
    case (Inl e)
    with Cons.prems f show ?thesis by (simp add: Let_def)
  next
    case (Inr c)
    then obtain s0 where
      rec: "split_loop y init (Suc i) fs s0 = (r, s')" and
      s0: "u_periods_cv s0 = u_periods_cv s \<and> all_periods s0 = all_periods s
           \<and> drop_folds s0 = drop_folds s"
      using Cons.prems f by (cases c; cases init) (simp_all add: Let_def)
    from Cons.IH[OF rec] s0 show ?thesis by simp
  qed
qed

lemma split_loop_later_n_splits:
  "split_loop y False i fs s = (r, s') \<Longrightarrow> n_splits s' = n_splits s"
proof (induction fs arbitrary: i s)
  case Nil
  then show ?case by simp
next
  case (Cons f fs)
  obtain trp tep where f: "f = (trp, tep)" by (cases f)
  show ?case
  proof (cases "drop_condition (drop_folds s) y (isin (all_periods s) trp)
                  (isin (all_periods s) tep)")
    case (Inl e)
    with Cons.prems f show ?thesis by (simp add: Let_def)
  next
    case (Inr c)
    then obtain s0 where
      rec: "split_loop y False (Suc i) fs s0 = (r, s')" and s0: "n_splits s0 = n_splits s"
      using Cons.prems f by (cases c) (simp_all add: Let_def)
    from Cons.IH[OF rec] s0 show ?thesis by simp
  qed
qed

lemma split_later_n_splits: "n_splits (snd (split s X y g False)) = n_splits s"
  by (auto simp: split_def split: prod.splits option.splits dest: split_loop_later_n_splits)

lemma split_later_frame:
  "u_periods_cv (snd (split s X y g init)) = u_periods_cv s
   \<and> all_periods (snd (split s X y g init)) = all_periods s
   \<and> drop_folds (snd (split s X y g init)) = drop_folds s"
  by (auto simp: split_def split: prod.splits option.splits dest: split_loop_frame)

lemma split_calls_n_splits:
  "list_all default_init calls \<Longrightarrow> n_splits (split_calls s calls) = n_splits s"
  by (induction calls arbitrary: s) (auto simp: split_later_n_splits default_init_def)

lemma expanding_3_is_TimeSeriesSplit:
  "TimeSeriesSplit_split
     \<lparr>cfg_n_splits = 2, cfg_gap = Some 0, cfg_test_size = None, cfg_max_train_size = None\<rparr> 3
     = expanding_3 cfg k"
  by code_simp

lemma split_loop_init_counts:
  "split_loop y True i fs s = (None, s') \<Longrightarrow>
     n_splits s' = n_splits s - int (length (dropped_of (drop_folds s) y (all_periods s) fs))
     \<and> length (all_indices s') + length (dropped_of (drop_folds s) y (all_periods s) fs)
         = length (all_indices s) + length fs
     \<and> length (stdout s')
         = length (stdout s) + length (dropped_of (drop_folds s) y (all_periods s) fs)"
proof (induction fs arbitrary: i s)
  case Nil
  then show ?case by (simp add: dropped_of_def)
next
  case (Cons f fs)
  obtain trp tep where f: "f = (trp, tep)" by (cases f)
  show ?case
  proof (cases "drop_condition (drop_folds s) y (isin (all_periods s) trp)
                  (isin (all_periods s) tep)")
    case (Inl e)
    with Cons.prems f show ?thesis by (simp add: Let_def)
  next
    case (Inr c)
    show ?thesis
    proof (cases c)
      case True
      with Inr Cons.prems f
      have "split_loop y True (Suc i) fs
              (s\<lparr>n_splits := n_splits s - 1, stdout := stdout s @ [i]\<rparr>) = (None, s')"
        by (simp add: Let_def)
      from Cons.IH[OF this] Inr True f show ?thesis
        by (simp add: dropped_of_def)
    next
      case False
      with Inr Cons.prems f
      have "split_loop y True (Suc i) fs
              (s\<lparr>all_indices := all_indices s
                    @ [(isin (all_periods s) trp, isin (all_periods s) tep)]\<rparr>) = (None, s')"
        by (simp add: Let_def)
      from Cons.IH[OF this] Inr False f show ?thesis
        by (simp add: dropped_of_def)
    qed
  qed
qed

lemma constructed_by_loop:
  assumes "PanelSplit_init tss tp up n gap ts mts plot d y = Inr self"
  shows "\<exists>u. period_folds tss tp up \<lparr>cfg_n_splits = n, cfg_gap = gap, cfg_test_size = ts,
              cfg_max_train_size = mts\<rparr> = Inr u
          \<and> split_loop y True 0 u \<lparr>u_periods_cv = u, all_periods = tp, drop_folds = d,
               n_splits = n, all_indices = [], stdout = []\<rparr> = (None, self)"
  using assms
  by (auto simp: PanelSplit_init_def split_def
           split: sum.splits if_splits prod.splits option.splits)

section \<open>The split count\<close>

text \<open>
  C1. After a construction with \<^verbatim>\<open>drop_folds\<close> set, for which the interval selector
  yielded as many folds as the configured \<^verbatim>\<open>n_splits\<close>, \<^verbatim>\<open>get_n_splits()\<close> is the
  configured count minus the number of folds dropped at construction, it is the number
  of mask pairs in the fold collection \<^verbatim>\<open>all_indices\<close> the construction produced, and
  it is the same after any sequence of later \<^verbatim>\<open>split\<close> calls that leave \<^verbatim>\<open>init\<close>
  at its default, whatever their other arguments and whether or not they raise. The
  arguments of \<^verbatim>\<open>get_n_splits\<close> are arbitrary.
\<close>

theorem get_n_splits_after_construction:
  assumes init: "PanelSplit_init tss tp up n gap ts mts plot True y = Inr self"
      and sel: "int (length (u_periods_cv self)) = n"
      and later: "list_all default_init calls"
  shows "get_n_splits self X Y G = n - int (length (dropped_at_construction self y))
       \<and> get_n_splits self X Y G = int (length (all_indices self))
       \<and> get_n_splits (split_calls self calls) X' Y' G' = get_n_splits self X Y G"
proof -
  from constructed_by_loop[OF init] obtain u where
    loop: "split_loop y True 0 u \<lparr>u_periods_cv = u, all_periods = tp, drop_folds = True,
               n_splits = n, all_indices = [], stdout = []\<rparr> = (None, self)"
    by blast
  from split_loop_frame[OF loop]
  have fr: "u_periods_cv self = u" "all_periods self = tp" "drop_folds self = True"
    by simp_all
  have d: "dropped_at_construction self y = dropped_of True y tp u"
    by (simp add: dropped_at_construction_def dropped_of_def fr)
  from split_loop_init_counts[OF loop]
  have c: "n_splits self = n - int (length (dropped_of True y tp u))"
    "length (all_indices self) + length (dropped_of True y tp u) = length u"
    by simp_all
  have "get_n_splits self X Y G = n - int (length (dropped_at_construction self y))"
    by (simp add: get_n_splits_def c d)
  moreover have "get_n_splits self X Y G = int (length (all_indices self))"
    using c sel fr by (simp add: get_n_splits_def)
  moreover have "get_n_splits (split_calls self calls) X' Y' G' = get_n_splits self X Y G"
    by (simp add: get_n_splits_def split_calls_n_splits[OF later])
  ultimately show ?thesis by blast
qed

theorem get_n_splits_after_construction_witness:
  "PanelSplit_init TimeSeriesSplit_split six_rows None 2 (Some 0) None None False True
     (Some first_period_constant) = Inr pruned_instance
   \<and> int (length (u_periods_cv pruned_instance)) = 2
   \<and> list_all default_init
         [((), None, (), False), ((), Some alternating_labels, (), False),
          ((), None, (), False)]
   \<and> get_n_splits pruned_instance () () ()
       = 2 - int (length (dropped_at_construction pruned_instance (Some first_period_constant)))
   \<and> get_n_splits pruned_instance () () () = int (length (all_indices pruned_instance))
   \<and> get_n_splits
        (split_calls pruned_instance
           [((), None, (), False), ((), Some alternating_labels, (), False),
            ((), None, (), False)]) () () ()
       = get_n_splits pruned_instance () () ()
   \<and> get_n_splits pruned_instance () () () = 1"
proof -
  have h1: "PanelSplit_init TimeSeriesSplit_split six_rows None 2 (Some 0) None None False True
     (Some first_period_constant) = Inr pruned_instance"
    by code_simp
  have h2: "int (length (u_periods_cv pruned_instance)) = 2"
    by (simp add: pruned_instance_def)
  have h3: "list_all default_init
         [((), None :: nat option list option, (), False),
          ((), Some alternating_labels, (), False), ((), None, (), False)]"
    by (simp add: default_init_def)
  have h4: "get_n_splits pruned_instance () () () = 1"
    by (simp add: get_n_splits_def pruned_instance_def)
  from get_n_splits_after_construction[OF h1 h2 h3, of "()" "()" "()" "()" "()" "()"]
  show ?thesis using h1 h2 h3 h4 by simp
qed

text \<open>
  The count does change when a later call passes \<^verbatim>\<open>init=True\<close>: on the instance
  built from the example data with the first fold dropped, whose count is 1, the call
  \<^verbatim>\<open>split(y=y, init=True)\<close> with the labels of the construction runs lines 72 and 73
  for the first fold again and leaves the count at 0.
\<close>

theorem get_n_splits_changed_by_init_call:
  "PanelSplit_init TimeSeriesSplit_split six_rows None 2 (Some 0) None None False True
     (Some first_period_constant) = Inr pruned_instance
   \<and> get_n_splits pruned_instance () () () = 1
   \<and> get_n_splits
        (split_calls pruned_instance [((), Some first_period_constant, (), True)]) () () ()
       = 0"
  by code_simp

text \<open>
  C10. The arguments \<^verbatim>\<open>X\<close> and \<^verbatim>\<open>groups\<close> of \<^verbatim>\<open>split\<close> and all arguments of
  \<^verbatim>\<open>get_n_splits\<close> have no effect: two calls on the same instance with the same
  \<^verbatim>\<open>y\<close> and \<^verbatim>\<open>init\<close> return the same masks (or raise the same exception) and leave
  the instance in the same state, and \<^verbatim>\<open>get_n_splits\<close> returns the same count.
\<close>

theorem split_ignores_X_and_groups:
  "split self X1 y groups1 init = split self X2 y groups2 init
   \<and> get_n_splits self X1 y1 groups1 = get_n_splits self X2 y2 groups2"
  by (simp add: split_def get_n_splits_def)

section \<open>Validation of the constructor's arguments\<close>

lemma without_labels_never_constructs:
  "\<exists>e. PanelSplit_init tss tp up n gap ts mts plot True None = Inl e"
  by (simp add: PanelSplit_init_def split: sum.splits)

text \<open>
  C7. With \<^verbatim>\<open>drop_folds\<close> set and no labels, no construction returns an instance:
  it raises the exception of lines 23 to 27 when the period-level folds cannot be
  computed, and otherwise the \<^verbatim>\<open>ValueError\<close> that names the missing labels.
\<close>

theorem drop_folds_requires_labels:
  "PanelSplit_init tss tp up n gap ts mts plot True None
     = Inl (case period_folds tss tp up
                   \<lparr>cfg_n_splits = n, cfg_gap = gap, cfg_test_size = ts,
                    cfg_max_train_size = mts\<rparr> of
              Inl e \<Rightarrow> e
            | Inr u \<Rightarrow> ValueError ''Cannot drop folds without specifying y values.'')"
  by (simp add: PanelSplit_init_def split: sum.splits)

theorem drop_folds_requires_labels_witness:
  "period_folds TimeSeriesSplit_split six_rows None
     \<lparr>cfg_n_splits = 2, cfg_gap = Some 0, cfg_test_size = None, cfg_max_train_size = None\<rparr>
     = Inr [([1], [2]), ([1, 2], [3])]
   \<and> PanelSplit_init TimeSeriesSplit_split six_rows None 2 (Some 0) None None False True
       (None :: nat option list option)
       = Inl (ValueError ''Cannot drop folds without specifying y values.'')"
proof -
  have h: "period_folds TimeSeriesSplit_split six_rows None
     \<lparr>cfg_n_splits = 2, cfg_gap = Some 0, cfg_test_size = None, cfg_max_train_size = None\<rparr>
     = Inr [([1], [2]), ([1, 2], [3])]"
    by code_simp
  from drop_folds_requires_labels[of TimeSeriesSplit_split six_rows None 2 "Some 0" None None
      False] h
  show ?thesis by simp
qed

text \<open>
  Calls with \<^verbatim>\<open>drop_folds\<close> set and no labels that raise another error than the one
  naming the labels: one period with \<^verbatim>\<open>n_splits=5\<close>, which the interval selector
  refuses, and the constructor's own default \<^verbatim>\<open>gap=None\<close>, which the selector cannot
  subtract.
\<close>

theorem drop_folds_without_labels_other_error:
  "PanelSplit_init TimeSeriesSplit_split [1 :: int] None 5 (Some 0) None None False True
     (None :: nat option list option)
     = Inl (ValueError ''Cannot have number of folds greater than the number of samples'')
   \<and> PanelSplit_init TimeSeriesSplit_split six_rows None 2 None None None False True
       (None :: nat option list option)
       = Inl (TypeError ''unsupported operand type(s) for -: int and NoneType'')"
  by code_simp

lemma labels_without_drop_folds_never_construct:
  "PanelSplit_init tss tp up n gap ts mts plot False (Some ys)
     = Inl (case period_folds tss tp up
                   \<lparr>cfg_n_splits = n, cfg_gap = gap, cfg_test_size = ts,
                    cfg_max_train_size = mts\<rparr> of
              Inl e \<Rightarrow> e
            | Inr u \<Rightarrow> NameError ''warnings'')"
  by (simp add: PanelSplit_init_def warnings_warn_def global_name_def module_globals_def
           split: sum.splits)

text \<open>
  C6. Labels supplied with \<^verbatim>\<open>drop_folds\<close> unset should give a warning and a usable
  instance. On the example data the constructor raises \<^verbatim>\<open>NameError\<close> at line 31
  instead, since the module never imports \<^verbatim>\<open>warnings\<close>, and returns no instance.
\<close>

theorem labels_without_drop_folds_raise:
  "PanelSplit_init expanding_3 six_rows None 2 (Some 0) None None False False
     (Some alternating_labels) = Inl (NameError ''warnings'')"
  by code_simp

text \<open>
  C5. An explicit \<^verbatim>\<open>unique_periods\<close> Series should be used as it is. Whatever the
  other arguments, the constructor raises the \<^verbatim>\<open>ValueError\<close> of the truth value of
  a Series at line 23 instead, and hands nothing to the interval selector.
\<close>

theorem explicit_unique_periods_raise:
  "resolve_unique_periods tp (Some s) = Inl (ValueError ''The truth value of a Series is ambiguous.'')
   \<and> PanelSplit_init tss tp (Some s) n gap ts mts plot dropping y
       = Inl (ValueError ''The truth value of a Series is ambiguous.'')"
  by (simp add: PanelSplit_init_def period_folds_def resolve_unique_periods_def eq_None_def
        truth_def)

section \<open>Dropping folds\<close>

lemma split_without_labels_raises:
  assumes "drop_folds self" and "u_periods_cv self \<noteq> []" and "all_periods self \<noteq> []"
  shows "fst (split self X (None :: 'l option list option) groups init)
           = Inl (AttributeError ''loc'')"
proof -
  from assms(2) obtain trp tep rest where u: "u_periods_cv self = (trp, tep) # rest"
    by (cases "u_periods_cv self") auto
  have "drop_condition True (None :: 'l option list option) (isin (all_periods self) trp)
          (isin (all_periods self) tep) = Inl (AttributeError ''loc'')"
    using assms(3) by (simp add: drop_condition_def isin_def as_series_def)
  with assms(1) u show ?thesis
    by (simp add: split_def Let_def)
qed

text \<open>
  With labels passed to the call itself, a later \<^verbatim>\<open>split\<close> returns the folds that
  are not degenerate for these labels and stores them in \<^verbatim>\<open>all_indices\<close>.
\<close>

lemma drop_condition_labels:
  assumes "length ys = length periods"
  shows "drop_condition True (Some ys) (isin periods trp) (isin periods tep)
           = Inr (degenerate ys (row_masks periods (trp, tep)))"
  using assms
  by (simp add: drop_condition_def degenerate_def row_masks_def rows_of_def loc_mask_def
        as_series_def isin_def)

lemma split_loop_labels:
  assumes "drop_folds s" and "length ys = length (all_periods s)"
  shows "split_loop (Some ys) False i fs s
           = (None, s\<lparr>all_indices := all_indices s @ kept_folds ys (all_periods s) fs\<rparr>)"
  using assms
proof (induction fs arbitrary: i s)
  case Nil
  then show ?case by (simp add: kept_folds_def)
next
  case (Cons f fs)
  obtain trp tep where f: "f = (trp, tep)" by (cases f)
  have c: "drop_condition (drop_folds s) (Some ys) (isin (all_periods s) trp)
             (isin (all_periods s) tep) = Inr (degenerate ys (row_masks (all_periods s) (trp, tep)))"
    using Cons.prems drop_condition_labels[of ys "all_periods s" trp tep] by simp
  show ?case
  proof (cases "degenerate ys (row_masks (all_periods s) (trp, tep))")
    case True
    with c f Cons.IH[of s "Suc i"] Cons.prems show ?thesis
      by (simp add: Let_def kept_folds_def)
  next
    case False
    let ?s = "s\<lparr>all_indices := all_indices s @ [row_masks (all_periods s) (trp, tep)]\<rparr>"
    have "split_loop (Some ys) False (Suc i) fs ?s
           = (None, ?s\<lparr>all_indices := all_indices ?s @ kept_folds ys (all_periods ?s) fs\<rparr>)"
      using Cons.IH[of ?s "Suc i"] Cons.prems by simp
    with c f False show ?thesis
      by (simp add: Let_def kept_folds_def row_masks_def)
  qed
qed

lemma split_with_labels:
  assumes "drop_folds self" and "length ys = length (all_periods self)"
  shows "split self X (Some ys) groups False
           = (Inr (kept_folds ys (all_periods self) (u_periods_cv self)),
              self\<lparr>all_indices := kept_folds ys (all_periods self) (u_periods_cv self)\<rparr>)"
  using split_loop_labels[of "self\<lparr>all_indices := []\<rparr>" ys 0 "u_periods_cv self"] assms
  by (simp add: split_def)

text \<open>
  C2. A later \<^verbatim>\<open>split()\<close> on an instance constructed with \<^verbatim>\<open>drop_folds\<close> set should
  use the labels given at construction and return the folds that are not degenerate.
  The instance does not keep the labels: the call without labels raises
  \<^verbatim>\<open>AttributeError\<close> at line 71 on the first fold, having emptied \<^verbatim>\<open>all_indices\<close>.
\<close>

theorem later_split_without_labels_raises:
  "PanelSplit_init expanding_3 six_rows None 2 (Some 0) None None False True
     (Some alternating_labels) = Inr dropping_instance
   \<and> split dropping_instance () (None :: nat option list option) () False
       = (Inl (AttributeError ''loc''), dropping_instance\<lparr>all_indices := []\<rparr>)"
  by code_simp

text \<open>
  C3. A fold whose train mask selects no row should be dropped at construction and the
  split count decremented. With six rows in three periods, alternating labels,
  \<^verbatim>\<open>n_splits=2\<close>, \<^verbatim>\<open>gap=0\<close> and \<^verbatim>\<open>max_train_size=-1\<close>, scikit-learn's selector
  yields two folds with no train position; their train masks select no row, yet the
  constructor keeps both folds, leaves \<^verbatim>\<open>n_splits\<close> at 2 and prints nothing: line 71
  tests the length of the mask, which is the number of rows.
\<close>

theorem fold_without_train_rows_is_kept:
  "TimeSeriesSplit_split
     \<lparr>cfg_n_splits = 2, cfg_gap = Some 0, cfg_test_size = None,
      cfg_max_train_size = Some (- 1)\<rparr> 3
     = Inr [([], [1]), ([], [2])]
   \<and> PanelSplit_init TimeSeriesSplit_split six_rows None 2 (Some 0) None (Some (- 1)) False
       True (Some alternating_labels) = Inr untrained_instance
   \<and> map (\<lambda>masks. selected (fst masks)) (all_indices untrained_instance) = [0, 0]
   \<and> get_n_splits untrained_instance () () () = 2"
  by code_simp

section \<open>Fitted models and imputers\<close>

text \<open>
  C8. Every fold should fit a fresh clone of the estimator, so that the retained list
  holds one fitted model per fold. With an estimator in scikit-learn's convention and
  the two folds of the example, \<^verbatim>\<open>fit\<close> is called on the estimator object itself
  (address 7) in both folds: the retained list is that one object twice, and after
  the call its state is the training of the second fold (four labels), not of the
  first (two labels).
\<close>

theorem fitted_models_are_one_object:
  "PanelSplit_init expanding_3 six_rows None 2 (Some 0) None None False False
     (None :: nat option list option) = Inr plain_instance
   \<and> fst (cross_val_predict remembering plain_instance 7 [10, 11, 12, 13, 14, 15]
          alternating_labels (Some ''target'') [0, 1, 2, 3, 4, 5 :: nat] ''predict'' None True
          None (\<lambda>_. []))
     = Inr ((''target_pred'', [(2, 2), (3, 2), (4, 4), (5, 4)]), Some [7, 7])
   \<and> snd (snd (cross_val_predict remembering plain_instance 7 [10, 11, 12, 13, 14, 15]
          alternating_labels (Some ''target'') [0, 1, 2, 3, 4, 5 :: nat] ''predict'' None True
          None (\<lambda>_. []))) 7
     = [0, 1, 0, 1]"
  by code_simp

lemma impute_first_fold_raises:
  assumes "length train_indices = length X" and "length test_indices = length X"
  shows "cross_val_impute_loop cls imputer ((train_indices, test_indices) # rest) X imputers
           = Inl (NameError ''clone'')"
  using assms
  by (simp add: loc_mask_def clone_def global_name_def module_globals_def)

text \<open>
  C9. The imputation should return the working copy with every fold's test rows
  transformed by a fresh clone of the imputer fitted on the train rows. On the example
  instance with two folds the call raises \<^verbatim>\<open>NameError\<close> at line 249 in the first
  fold, since the module never imports \<^verbatim>\<open>clone\<close>; no table is returned.
\<close>

theorem impute_raises_on_clone:
  "PanelSplit_init expanding_3 six_rows None 2 (Some 0) None None False False
     (None :: nat option list option) = Inr plain_instance
   \<and> cross_val_impute sum_imputer plain_instance 0
       [Some 1, None, Some 3, None, None, Some 4] True
       = (Inl (NameError ''clone''), plain_instance)"
  by code_simp

end
